theory Spec2Isabelle
  imports Main
begin

section \<open>Web push notification bootstrap (src/lib/push-notifications.ts)\<close>

text \<open>
  The module keeps two module-level variables, \<open>isInitialized\<close> and
  \<open>registrationToken\<close>, and talks to the browser (\<open>window\<close>,
  \<open>navigator\<close>, \<open>Notification\<close>), to \<open>fcmService\<close> of
  \<open>@/lib/firebase\<close> and to the api client of \<open>./api\<close>. None of
  these collaborators is part of the module, so what each of them answers is a field of an
  \<open>environment\<close> record: the value read, or for a call either the value it
  gives back or the value it throws (a promise that rejects throws at its \<open>await\<close>).
  Every call on a collaborator and every console line is recorded, in order, in a list of
  events. A console line is recorded by its level and the fixed text of its message, without
  the emoji, the \<open>[TEST LOG]\<close> tag and the interpolated run-time values.
  An awaited promise is assumed to settle. Whether the identifier \<open>navigator\<close>
  is bound is a field of the environment of its own: the function refers to it (line 126)
  after having checked \<open>window\<close> only, and before its \<open>try\<close> block.
\<close>

subsection \<open>Data\<close>

datatype permission = Default | Granted | Denied

text \<open>A thrown value: an \<open>Error\<close> object with its message and stack, or anything else.\<close>

datatype thrown = ErrorObject string "string option" | OtherValue string

datatype sw_registration = ServiceWorkerRegistration string

record module_state =
  isInitialized :: bool
  registrationToken :: "string option"

definition initial_state :: module_state where
  "initial_state = \<lparr>isInitialized = False, registrationToken = None\<rparr>"

record notification_channel =
  channel_id :: string
  channel_name :: string
  channel_description :: string
  channel_importance :: string
  channel_badge :: string
  channel_icon :: string
  channel_vibrate :: "nat list"
  channel_requireInteraction :: bool

definition NOTIFICATION_CHANNEL :: notification_channel where
  "NOTIFICATION_CHANNEL =
     \<lparr>channel_id = ''africash_foreground'',
      channel_name = ''africash_foreground'',
      channel_description = ''All Africash notifications with high priority display'',
      channel_importance = ''high'',
      channel_badge = ''/placeholder-logo.png'',
      channel_icon = ''/placeholder-logo.png'',
      channel_vibrate = [200, 100, 200],
      channel_requireInteraction = False\<rparr>"

text \<open>The part of a \<open>MessagePayload\<close> that the module reads.\<close>

record notification_payload =
  title :: "string option"
  body :: "string option"

record message_payload =
  notification :: "notification_payload option"
  data :: "(string \<rightharpoonup> string) option"

text \<open>The arguments of \<open>new Notification(title, options)\<close>.\<close>

record native_notification =
  n_title :: string
  n_body :: string
  n_icon :: string
  n_badge :: string
  n_tag :: string
  n_requireInteraction :: bool
  n_data :: "(string \<rightharpoonup> string) option"
  n_vibrate :: "nat list"

datatype click_action =
    PreventDefault
  | WindowFocus
  | WindowOpen string string
  | NotificationClose

datatype level = LogLevel | WarnLevel | ErrorLevel

datatype event =
    Console level string
  | ConsoleWithError string thrown
  | ConsoleErrorDetails string "string option"
  | RequestPermission
  | RegisterServiceWorker
  | FcmInitialize
  | FcmGetToken
  | ImportApi
  | ApiPost string string string
  | SetupForegroundListener
  | NewNotification native_notification
  | AssignOnclick "click_action list"

record environment =
  window_defined :: bool
  navigator_defined :: bool
  serviceWorker_in_navigator :: bool
  PushManager_in_window :: bool
  Notification_in_window :: bool
  window_isSecureContext :: bool
  Notification_permission :: permission
  Date_now :: int
  Notification_requestPermission :: "thrown + permission"
  fcm_registerServiceWorker :: "thrown + sw_registration option"
  fcm_initialize :: "thrown + unit"
  fcm_getToken :: "thrown + string option"
  import_api :: "thrown + unit"
  api_post :: "thrown + unit"
  fcm_setupForegroundListener :: "thrown + unit"
  new_Notification :: "thrown + unit"

subsection \<open>Statements\<close>

text \<open>
  A statement either completes with a value, executes \<open>return\<close>, or throws. It
  reads and writes the module state and appends events.
\<close>

datatype 'a step = Continue 'a | Return | Throw thrown

type_synonym 'a comp = "module_state \<Rightarrow> 'a step \<times> module_state \<times> event list"

definition then_do :: "'a comp \<Rightarrow> ('a \<Rightarrow> 'b comp) \<Rightarrow> 'b comp" where
  "then_do m k = (\<lambda>s.
     case m s of
       (Continue a, s1, tr1) \<Rightarrow> (case k a s1 of (r, s2, tr2) \<Rightarrow> (r, s2, tr1 @ tr2))
     | (Return, s1, tr1) \<Rightarrow> (Return, s1, tr1)
     | (Throw e, s1, tr1) \<Rightarrow> (Throw e, s1, tr1))"

definition emit :: "event list \<Rightarrow> unit comp" where
  "emit evs = (\<lambda>s. (Continue (), s, evs))"

definition result :: "'a \<Rightarrow> 'a comp" where
  "result v = (\<lambda>s. (Continue v, s, []))"

definition return_stmt :: "'a comp" where
  "return_stmt = (\<lambda>s. (Return, s, []))"

definition throw_stmt :: "thrown \<Rightarrow> 'a comp" where
  "throw_stmt e = (\<lambda>s. (Throw e, s, []))"

definition perform :: "event \<Rightarrow> thrown + 'a \<Rightarrow> 'a comp" where
  "perform ev answer = (\<lambda>s.
     case answer of
       Inl e \<Rightarrow> (Throw e, s, [ev])
     | Inr v \<Rightarrow> (Continue v, s, [ev]))"

definition read_isInitialized :: "bool comp" where
  "read_isInitialized = (\<lambda>s. (Continue (isInitialized s), s, []))"

definition assign_isInitialized :: "bool \<Rightarrow> unit comp" where
  "assign_isInitialized b = (\<lambda>s. (Continue (), s\<lparr>isInitialized := b\<rparr>, []))"

definition assign_registrationToken :: "string option \<Rightarrow> unit comp" where
  "assign_registrationToken t = (\<lambda>s. (Continue (), s\<lparr>registrationToken := t\<rparr>, []))"

text \<open>\<open>if (c) { console...; return; }\<close>\<close>

definition exit_if :: "bool \<Rightarrow> event list \<Rightarrow> unit comp" where
  "exit_if c evs = (if c then then_do (emit evs) (\<lambda>_. return_stmt) else emit [])"

text \<open>\<open>try { body } catch (error) { handler }\<close>: a \<open>return\<close> in the body leaves the function.\<close>

definition try_catch :: "'a comp \<Rightarrow> (thrown \<Rightarrow> 'a comp) \<Rightarrow> 'a comp" where
  "try_catch blk handler = (\<lambda>s.
     case blk s of
       (Throw e, s1, tr1) \<Rightarrow> (case handler e s1 of (r, s2, tr2) \<Rightarrow> (r, s2, tr1 @ tr2))
     | (Continue a, s1, tr1) \<Rightarrow> (Continue a, s1, tr1)
     | (Return, s1, tr1) \<Rightarrow> (Return, s1, tr1))"

text \<open>
  A call \<open>f(...)\<close>, or \<open>await f(...)\<close> for an async function, of a function
  of this module whose body is \<open>f_body\<close>: a \<open>return\<close> in the body ends the
  call, not the caller, and what the body throws is thrown at the call.
\<close>

definition call_function :: "unit comp \<Rightarrow> unit comp" where
  "call_function f_body = (\<lambda>s.
     case f_body s of
       (Throw e, s1, tr1) \<Rightarrow> (Throw e, s1, tr1)
     | (Continue _, s1, tr1) \<Rightarrow> (Continue (), s1, tr1)
     | (Return, s1, tr1) \<Rightarrow> (Continue (), s1, tr1))"

text \<open>How the promise of an exported async function settles for its caller.\<close>

datatype settled = Resolved | Rejected thrown

definition settle :: "unit comp \<Rightarrow> module_state \<Rightarrow> settled \<times> module_state \<times> event list" where
  "settle f_body s =
     (case f_body s of
        (Throw e, s1, tr1) \<Rightarrow> (Rejected e, s1, tr1)
      | (Continue _, s1, tr1) \<Rightarrow> (Resolved, s1, tr1)
      | (Return, s1, tr1) \<Rightarrow> (Resolved, s1, tr1))"

text \<open>JavaScript \<open>a || b\<close> on an optional string: the empty string is falsy.\<close>

definition or_else :: "string option \<Rightarrow> string \<Rightarrow> string" where
  "or_else a b = (case a of None \<Rightarrow> b | Some t \<Rightarrow> if t = [] then b else t)"

text \<open>
  Decimal rendering of an integer, as a template literal renders \<open>Date.now()\<close>;
  \<open>digit_char\<close> is only applied to numbers below ten.
\<close>

definition digit_char :: "nat \<Rightarrow> char" where
  "digit_char d = ''0123456789'' ! d"

fun string_of_nat :: "nat \<Rightarrow> string" where
  "string_of_nat n =
     (if n < 10 then [digit_char n]
      else string_of_nat (n div 10) @ [digit_char (n mod 10)])"

definition string_of_int :: "int \<Rightarrow> string" where
  "string_of_int i = (if i < 0 then CHR ''-'' # string_of_nat (nat (- i)) else string_of_nat (nat i))"

subsection \<open>registerDeviceOnBackend (lines 32-50)\<close>

definition registerDeviceOnBackend :: "environment \<Rightarrow> string \<Rightarrow> string \<Rightarrow> unit comp" where
  "registerDeviceOnBackend env token type =
     then_do (emit [Console LogLevel ''Attempting to register device on backend for web platform'',
                    Console LogLevel ''Token length: , Token preview: ...'']) (\<lambda>_.
     try_catch
       (then_do (perform ImportApi (import_api env)) (\<lambda>_.
        then_do (perform (ApiPost ''/mobcash/devices/'' token type) (api_post env)) (\<lambda>_.
        emit [Console LogLevel ''Device successfully registered on backend''])))
       (\<lambda>error. emit [ConsoleWithError ''Error registering device on backend:'' error]))"

subsection \<open>showNativeNotification (lines 55-98)\<close>

text \<open>The click handler assigned to \<open>notification.onclick\<close> (lines 82-92).\<close>

definition onclick :: "(string \<rightharpoonup> string) option \<Rightarrow> click_action list" where
  "onclick d =
     [PreventDefault, WindowFocus] @
     (case Option.bind d (\<lambda>m. m ''url'') of
        None \<Rightarrow> []
      | Some url \<Rightarrow> if url = [] then [] else [WindowOpen url ''_blank'']) @
     [NotificationClose]"

definition showNativeNotification ::
  "environment \<Rightarrow> string \<Rightarrow> string \<Rightarrow> (string \<rightharpoonup> string) option \<Rightarrow> unit comp" where
  "showNativeNotification env ttl bdy d =
     then_do (exit_if (\<not> window_defined env \<or> \<not> Notification_in_window env)
                [Console WarnLevel ''Notification API not available'']) (\<lambda>_.
     then_do (exit_if (Notification_permission env \<noteq> Granted)
                [Console WarnLevel ''Notification permission not granted'']) (\<lambda>_.
     try_catch
       (then_do (perform
                   (NewNotification
                      \<lparr>n_title = ttl,
                       n_body = bdy,
                       n_icon = channel_icon NOTIFICATION_CHANNEL,
                       n_badge = channel_badge NOTIFICATION_CHANNEL,
                       n_tag = channel_id NOTIFICATION_CHANNEL @ ''_'' @ string_of_int (Date_now env),
                       n_requireInteraction = channel_requireInteraction NOTIFICATION_CHANNEL,
                       n_data = d,
                       n_vibrate = channel_vibrate NOTIFICATION_CHANNEL\<rparr>)
                   (new_Notification env)) (\<lambda>_.
        emit [AssignOnclick (onclick d),
              Console LogLevel ''Native notification displayed successfully'']))
       (\<lambda>error. emit [ConsoleWithError ''Error showing native notification:'' error])))"

subsection \<open>The foreground listener (lines 223-238)\<close>

text \<open>
  The callback handed to \<open>fcmService.setupForegroundListener\<close>; \<open>env\<close> is
  the browser at the time the message arrives. A call of \<open>showNativeNotification\<close>
  that returns early returns to the callback, which goes on.
\<close>

definition foreground_listener :: "environment \<Rightarrow> message_payload \<Rightarrow> unit comp" where
  "foreground_listener env payload =
     then_do (emit [Console LogLevel ''Push notification received while app in foreground:'']) (\<lambda>_.
     then_do (call_function
                (showNativeNotification env
                   (or_else (Option.bind (notification payload) title) ''Notification'')
                   (or_else (Option.bind (notification payload) body) '''')
                   (data payload))) (\<lambda>_.
     emit [Console LogLevel ''Foreground notification displayed with africash_foreground channel'']))"

subsection \<open>initializePushNotifications (lines 108-257)\<close>

text \<open>
  The \<open>try\<close> block (lines 151-247) is a straight sequence; it is written here in the
  five parts that the comments of the source mark. A \<open>return\<close> or an exception in a
  part ends the whole block.
\<close>

text \<open>Lines 153-167: read the permission and ask for it when it is not yet determined.\<close>

definition resolve_permission :: "environment \<Rightarrow> permission comp" where
  "resolve_permission env =
     (if Notification_permission env = Default then
        then_do (emit [Console LogLevel ''Requesting push notification permissions...'']) (\<lambda>_.
        then_do (perform RequestPermission (Notification_requestPermission env)) (\<lambda>permStatus.
        then_do (emit [Console LogLevel ''Permission request result:'']) (\<lambda>_.
        result permStatus)))
      else if Notification_permission env = Denied then
        then_do (emit [Console WarnLevel ''Push notification permission denied by user.'',
                       Console WarnLevel ''User can enable it in browser settings.'']) (\<lambda>_.
        return_stmt)
      else
        then_do (emit [Console LogLevel ''Push notification permission already granted'']) (\<lambda>_.
        result (Notification_permission env)))"

text \<open>Lines 151-181: check the permission, verify that it was granted.\<close>

definition check_permission :: "environment \<Rightarrow> unit comp" where
  "check_permission env =
     then_do (emit [Console LogLevel ''Checking current push notification permissions...'',
                    Console LogLevel ''Current permission status:'']) (\<lambda>_.
     then_do (resolve_permission env) (\<lambda>permStatus.
     then_do (exit_if (permStatus \<noteq> Granted)
                [Console WarnLevel ''Push notification permission not granted:'']) (\<lambda>_.
     emit [Console LogLevel ''Push notification permission granted, setting up...'',
           Console LogLevel ''Configuring notification channel: africash_foreground'',
           Console LogLevel ''Channel name: africash_foreground'',
           Console LogLevel ''Channel description: All Africash notifications with high priority display'',
           Console LogLevel ''Notification channel configured for web platform''])))"

text \<open>Lines 183-192: register the service worker.\<close>

definition register_worker :: "environment \<Rightarrow> unit comp" where
  "register_worker env =
     then_do (emit [Console LogLevel ''Registering service worker...'']) (\<lambda>_.
     then_do (perform RegisterServiceWorker (fcm_registerServiceWorker env)) (\<lambda>swRegistration.
     then_do (exit_if (swRegistration = None)
                [Console ErrorLevel ''Service worker registration failed - cannot proceed'']) (\<lambda>_.
     emit [Console LogLevel ''Service worker registered successfully''])))"

text \<open>Lines 194-197: initialize Firebase Cloud Messaging.\<close>

definition initialize_messaging :: "environment \<Rightarrow> unit comp" where
  "initialize_messaging env =
     then_do (emit [Console LogLevel ''Initializing Firebase Cloud Messaging...'']) (\<lambda>_.
     then_do (perform FcmInitialize (fcm_initialize env)) (\<lambda>_.
     emit [Console LogLevel ''Firebase Cloud Messaging initialized'']))"

text \<open>
  Lines 199-219: get the token, cache it and register the device. \<open>if (token)\<close>
  takes the \<open>else\<close> branch for \<open>null\<close> and for the empty string.
\<close>

definition get_token :: "environment \<Rightarrow> unit comp" where
  "get_token env =
     then_do (emit [Console LogLevel ''Requesting FCM registration token...'']) (\<lambda>_.
     then_do (perform FcmGetToken (fcm_getToken env)) (\<lambda>token.
     case token of
       Some t \<Rightarrow>
         if t \<noteq> [] then
           then_do (emit [Console LogLevel ''FCM registration success! Token received:'']) (\<lambda>_.
           then_do (assign_registrationToken (Some t)) (\<lambda>_.
           then_do (emit [Console LogLevel ''Platform detected: web, preparing to send token to backend...'',
                          Console LogLevel ''Device registration process starting for web platform'']) (\<lambda>_.
           call_function (registerDeviceOnBackend env t ''web''))))
         else
           then_do (emit [Console ErrorLevel ''Failed to get FCM token'']) (\<lambda>_. return_stmt)
     | None \<Rightarrow>
         then_do (emit [Console ErrorLevel ''Failed to get FCM token'']) (\<lambda>_. return_stmt)))"

text \<open>Lines 221-247: set up the foreground listener, mark the module as initialized.\<close>

definition setup_listener :: "environment \<Rightarrow> unit comp" where
  \<open>setup_listener env =
     then_do (emit [Console LogLevel ''Setting up foreground message listener...'']) (\<lambda>_.
     then_do (perform SetupForegroundListener (fcm_setupForegroundListener env)) (\<lambda>_.
     then_do (emit [Console LogLevel ''Foreground message listener configured'']) (\<lambda>_.
     then_do (assign_isInitialized True) (\<lambda>_.
     emit [Console LogLevel ''Push notifications initialization completed successfully!'',
           Console LogLevel ''Notification channel "africash_foreground" is active'',
           Console LogLevel ''Ready to receive push notifications from FCM'']))))\<close>

definition try_block :: "environment \<Rightarrow> unit comp" where
  "try_block env =
     then_do (check_permission env) (\<lambda>_.
     then_do (register_worker env) (\<lambda>_.
     then_do (initialize_messaging env) (\<lambda>_.
     then_do (get_token env) (\<lambda>_.
     setup_listener env))))"

text \<open>Lines 249-256: the \<open>catch\<close> clause.\<close>

definition catch_clause :: "thrown \<Rightarrow> unit comp" where
  "catch_clause error =
     emit [ConsoleWithError ''Error initializing push notifications:'' error,
           (case error of
              ErrorObject message stack \<Rightarrow> ConsoleErrorDetails message stack
            | OtherValue _ \<Rightarrow> ConsoleErrorDetails ''Unknown error'' None)]"

text \<open>
  Evaluating the identifier \<open>navigator\<close> (line 126, first use): a ReferenceError
  when it is not bound. The stack of that error is not modelled. At line 148 the identifier
  is bound, since line 126 was passed.
\<close>

definition navigator_ReferenceError :: thrown where
  "navigator_ReferenceError = ErrorObject ''navigator is not defined'' None"

definition reference_navigator :: "environment \<Rightarrow> unit comp" where
  "reference_navigator env =
     (if navigator_defined env then emit [] else throw_stmt navigator_ReferenceError)"

text \<open>
  Lines 108-257. The checks of lines 112-148 stand before the \<open>try\<close> block of line 150.
\<close>

definition initializePushNotifications_body :: "environment \<Rightarrow> unit comp" where
  "initializePushNotifications_body env =
     then_do (emit [Console LogLevel ''initializePushNotifications() called at:'']) (\<lambda>_.
     then_do read_isInitialized (\<lambda>already.
     then_do (exit_if already
                [Console LogLevel ''Push notifications already initialized, skipping...'']) (\<lambda>_.
     then_do (emit [Console LogLevel ''Checking platform compatibility...'']) (\<lambda>_.
     then_do (exit_if (\<not> window_defined env)
                [Console LogLevel ''Push notifications not available on server-side - exiting'']) (\<lambda>_.
     then_do (reference_navigator env) (\<lambda>_.
     then_do (exit_if (\<not> serviceWorker_in_navigator env)
                [Console LogLevel ''Service Worker not supported in this browser - exiting'']) (\<lambda>_.
     then_do (exit_if (\<not> PushManager_in_window env)
                [Console LogLevel ''Push API not supported in this browser - exiting'']) (\<lambda>_.
     then_do (exit_if (\<not> Notification_in_window env)
                [Console LogLevel ''Notification API not supported in this browser - exiting'']) (\<lambda>_.
     then_do (exit_if (\<not> window_isSecureContext env)
                [Console LogLevel ''Push notifications require HTTPS or localhost - exiting'']) (\<lambda>_.
     then_do (emit [Console LogLevel ''Initializing push notifications on web platform'',
                    Console LogLevel ''Platform: web, Browser: '']) (\<lambda>_.
     try_catch (try_block env) catch_clause)))))))))))"

definition initializePushNotifications ::
  "environment \<Rightarrow> module_state \<Rightarrow> settled \<times> module_state \<times> event list" where
  "initializePushNotifications env s = settle (initializePushNotifications_body env) s"

subsection \<open>Accessors (lines 262-281)\<close>

definition getPushToken :: "module_state \<Rightarrow> string option" where
  "getPushToken s = registrationToken s"

definition isPushInitialized :: "module_state \<Rightarrow> bool" where
  "isPushInitialized s = isInitialized s"

definition getPermissionStatus :: "environment \<Rightarrow> permission" where
  "getPermissionStatus env =
     (if \<not> window_defined env \<or> \<not> Notification_in_window env then Denied
      else Notification_permission env)"

subsection \<open>Reading a run\<close>

definition outcome_of :: "settled \<times> module_state \<times> event list \<Rightarrow> settled" where
  "outcome_of r = fst r"

definition state_after :: "'a \<times> module_state \<times> event list \<Rightarrow> module_state" where
  "state_after r = fst (snd r)"

definition trace_of :: "'a \<times> module_state \<times> event list \<Rightarrow> event list" where
  "trace_of r = snd (snd r)"

subsection \<open>What a run leaves behind\<close>

text \<open>
  The properties below are about the calls made on the collaborators, the errors reported and the module
  state, not about the informational console lines. \<open>observed\<close> drops the plain console
  lines of a trace; \<open>run_events\<close> and \<open>run_state\<close> describe, part by part, what a
  run of \<open>initializePushNotifications\<close> leaves behind, and are proved below to agree
  with the model of the function.
\<close>

definition browser_supported :: "environment \<Rightarrow> bool" where
  "browser_supported env \<longleftrightarrow>
     window_defined env \<and> navigator_defined env \<and> serviceWorker_in_navigator env \<and>
     PushManager_in_window env \<and>
     Notification_in_window env \<and> window_isSecureContext env"

fun console_line :: "event \<Rightarrow> bool" where
  "console_line (Console _ _) = True"
| "console_line (ConsoleErrorDetails _ _) = True"
| "console_line _ = False"

definition observed :: "event list \<Rightarrow> event list" where
  "observed tr = filter (\<lambda>ev. \<not> console_line ev) tr"

definition obs :: "'a comp \<Rightarrow> 'a comp" where
  "obs m = (\<lambda>s. case m s of (r, s1, tr) \<Rightarrow> (r, s1, observed tr))"

definition prepend ::
  "event list \<Rightarrow> 'a \<times> module_state \<times> event list \<Rightarrow> 'a \<times> module_state \<times> event list" where
  "prepend evs r = (case r of (x, s, tr) \<Rightarrow> (x, s, evs @ tr))"

text \<open>The arguments of the calls of the \<open>Notification\<close> constructor, in order.\<close>

fun notifications :: "event list \<Rightarrow> native_notification list" where
  "notifications [] = []"
| "notifications (NewNotification n # evs) = n # notifications evs"
| "notifications (_ # evs) = notifications evs"

text \<open>What the \<open>catch\<close> clause reports, and what a part that throws adds to the trace.\<close>

definition caught :: "thrown \<Rightarrow> event list" where
  "caught e = [ConsoleWithError ''Error initializing push notifications:'' e]"

definition step_report :: "unit step \<Rightarrow> event list" where
  "step_report r = (case r of Throw e \<Rightarrow> caught e | _ \<Rightarrow> [])"

definition backend_events :: "environment \<Rightarrow> string \<Rightarrow> event list" where
  "backend_events env t =
     ImportApi #
     (case import_api env of
        Inl e \<Rightarrow> [ConsoleWithError ''Error registering device on backend:'' e]
      | Inr _ \<Rightarrow>
          ApiPost ''/mobcash/devices/'' t ''web'' #
          (case api_post env of
             Inl e \<Rightarrow> [ConsoleWithError ''Error registering device on backend:'' e]
           | Inr _ \<Rightarrow> []))"

definition backend_failure :: "environment \<Rightarrow> thrown option" where
  "backend_failure env =
     (case import_api env of
        Inl e \<Rightarrow> Some e
      | Inr _ \<Rightarrow> (case api_post env of Inl e \<Rightarrow> Some e | Inr _ \<Rightarrow> None))"

text \<open>How each part of the \<open>try\<close> block ends, as a function of the environment.\<close>

definition permission_step :: "environment \<Rightarrow> unit step" where
  "permission_step env =
     (case Notification_permission env of
        Denied \<Rightarrow> Return
      | Granted \<Rightarrow> Continue ()
      | Default \<Rightarrow>
          (case Notification_requestPermission env of
             Inl e \<Rightarrow> Throw e
           | Inr p \<Rightarrow> if p = Granted then Continue () else Return))"

definition permission_calls :: "environment \<Rightarrow> event list" where
  "permission_calls env =
     (if Notification_permission env = Default then [RequestPermission] else [])"

definition worker_step :: "environment \<Rightarrow> unit step" where
  "worker_step env =
     (case fcm_registerServiceWorker env of
        Inl e \<Rightarrow> Throw e
      | Inr None \<Rightarrow> Return
      | Inr (Some _) \<Rightarrow> Continue ())"

definition messaging_step :: "environment \<Rightarrow> unit step" where
  "messaging_step env = (case fcm_initialize env of Inl e \<Rightarrow> Throw e | Inr _ \<Rightarrow> Continue ())"

definition token_step :: "environment \<Rightarrow> unit step" where
  "token_step env =
     (case fcm_getToken env of
        Inl e \<Rightarrow> Throw e
      | Inr None \<Rightarrow> Return
      | Inr (Some t) \<Rightarrow> if t = [] then Return else Continue ())"

definition token_of :: "environment \<Rightarrow> string" where
  "token_of env = (case fcm_getToken env of Inr (Some t) \<Rightarrow> t | _ \<Rightarrow> [])"

definition listener_step :: "environment \<Rightarrow> unit step" where
  "listener_step env =
     (case fcm_setupForegroundListener env of Inl e \<Rightarrow> Throw e | Inr _ \<Rightarrow> Continue ())"

definition reaches_permission :: "environment \<Rightarrow> module_state \<Rightarrow> bool" where
  "reaches_permission env s \<longleftrightarrow> \<not> isInitialized s \<and> browser_supported env"

definition reaches_worker :: "environment \<Rightarrow> module_state \<Rightarrow> bool" where
  "reaches_worker env s \<longleftrightarrow> reaches_permission env s \<and> permission_step env = Continue ()"

definition reaches_messaging :: "environment \<Rightarrow> module_state \<Rightarrow> bool" where
  "reaches_messaging env s \<longleftrightarrow> reaches_worker env s \<and> worker_step env = Continue ()"

definition reaches_token :: "environment \<Rightarrow> module_state \<Rightarrow> bool" where
  "reaches_token env s \<longleftrightarrow> reaches_messaging env s \<and> messaging_step env = Continue ()"

definition reaches_listener :: "environment \<Rightarrow> module_state \<Rightarrow> bool" where
  "reaches_listener env s \<longleftrightarrow> reaches_token env s \<and> token_step env = Continue ()"

definition completes :: "environment \<Rightarrow> module_state \<Rightarrow> bool" where
  "completes env s \<longleftrightarrow> reaches_listener env s \<and> listener_step env = Continue ()"

definition run_outcome :: "environment \<Rightarrow> module_state \<Rightarrow> settled" where
  "run_outcome env s =
     (if \<not> isInitialized s \<and> window_defined env \<and> \<not> navigator_defined env
      then Rejected navigator_ReferenceError else Resolved)"

definition run_events :: "environment \<Rightarrow> module_state \<Rightarrow> event list" where
  "run_events env s =
     (if reaches_permission env s
      then permission_calls env @ step_report (permission_step env) else []) @
     (if reaches_worker env s
      then RegisterServiceWorker # step_report (worker_step env) else []) @
     (if reaches_messaging env s
      then FcmInitialize # step_report (messaging_step env) else []) @
     (if reaches_token env s
      then FcmGetToken # step_report (token_step env) else []) @
     (if reaches_listener env s
      then backend_events env (token_of env) @
           SetupForegroundListener # step_report (listener_step env)
      else [])"

definition run_state :: "environment \<Rightarrow> module_state \<Rightarrow> module_state" where
  "run_state env s =
     (if reaches_listener env s
      then (if listener_step env = Continue ()
            then s\<lparr>registrationToken := Some (token_of env), isInitialized := True\<rparr>
            else s\<lparr>registrationToken := Some (token_of env)\<rparr>)
      else s)"

text \<open>The conditions of the properties below, read off the environment.\<close>

definition permission_granted :: "environment \<Rightarrow> bool" where
  "permission_granted env \<longleftrightarrow>
     Notification_permission env = Granted \<or>
     (Notification_permission env = Default \<and> Notification_requestPermission env = Inr Granted)"

definition worker_registered :: "environment \<Rightarrow> bool" where
  "worker_registered env =
     (case fcm_registerServiceWorker env of Inr (Some _) \<Rightarrow> True | _ \<Rightarrow> False)"

definition token_received :: "environment \<Rightarrow> bool" where
  "token_received env =
     (case fcm_getToken env of Inr (Some t) \<Rightarrow> t \<noteq> [] | _ \<Rightarrow> False)"

definition sequence_completes :: "environment \<Rightarrow> bool" where
  "sequence_completes env \<longleftrightarrow>
     browser_supported env \<and> permission_granted env \<and> worker_registered env \<and>
     fcm_initialize env = Inr () \<and> token_received env \<and>
     fcm_setupForegroundListener env = Inr ()"

text \<open>
  A run fetches a token when it starts with the flag false, passes the capability and
  permission checks, registers the worker, initializes the messaging client and receives a
  token that is not empty.
\<close>

definition fetches_token :: "environment \<Rightarrow> module_state \<Rightarrow> bool" where
  "fetches_token env s \<longleftrightarrow>
     \<not> isInitialized s \<and> browser_supported env \<and> permission_granted env \<and>
     worker_registered env \<and> fcm_initialize env = Inr () \<and> token_received env"

definition sequence_step :: "event \<Rightarrow> bool" where
  "sequence_step ev \<longleftrightarrow>
     ev = RegisterServiceWorker \<or> ev = FcmInitialize \<or> ev = FcmGetToken \<or> ev = ImportApi \<or>
     ev = SetupForegroundListener"

subsection \<open>Example environments\<close>

text \<open>A browser in which every step succeeds and the permission is already granted.\<close>

definition example_env :: environment where
  "example_env =
     \<lparr>window_defined = True, navigator_defined = True, serviceWorker_in_navigator = True,
      PushManager_in_window = True,
      Notification_in_window = True, window_isSecureContext = True,
      Notification_permission = Granted, Date_now = 1770315796000,
      Notification_requestPermission = Inr Granted,
      fcm_registerServiceWorker = Inr (Some (ServiceWorkerRegistration ''/'')),
      fcm_initialize = Inr (), fcm_getToken = Inr (Some ''token''),
      import_api = Inr (), api_post = Inr (),
      fcm_setupForegroundListener = Inr (), new_Notification = Inr ()\<rparr>"

definition messaging_fails_env :: environment where
  "messaging_fails_env =
     example_env\<lparr>fcm_initialize := Inl (ErrorObject ''messaging failed'' None)\<rparr>"

definition no_worker_env :: environment where
  "no_worker_env = example_env\<lparr>fcm_registerServiceWorker := Inr None\<rparr>"

definition denied_env :: environment where
  "denied_env = example_env\<lparr>Notification_permission := Denied\<rparr>"

definition prompt_env :: environment where
  "prompt_env = example_env\<lparr>Notification_permission := Default\<rparr>"

definition backend_down_env :: environment where
  "backend_down_env =
     example_env\<lparr>api_post := Inl (ErrorObject ''Request failed with status code 500'' None)\<rparr>"

definition listener_fails_env :: environment where
  "listener_fails_env =
     example_env\<lparr>fcm_setupForegroundListener := Inl (ErrorObject ''messaging unsupported'' None)\<rparr>"

definition no_navigator_env :: environment where
  "no_navigator_env = example_env\<lparr>navigator_defined := False\<rparr>"

definition server_env :: environment where
  "server_env = example_env\<lparr>window_defined := False\<rparr>"

definition example_payload :: message_payload where
  "example_payload =
     \<lparr>notification = Some \<lparr>title = Some ''T'', body = Some ''B''\<rparr>,
      data = Some [''url'' \<mapsto> ''https://example.com'']\<rparr>"

definition empty_title_payload :: message_payload where
  "empty_title_payload =
     \<lparr>notification = Some \<lparr>title = Some '''', body = None\<rparr>,
      data = Some [''url'' \<mapsto> '''']\<rparr>"

declare string_of_nat.simps [simp del]

section \<open>Executing the model\<close>

subsection \<open>Rules for running statements\<close>

lemma prepend_simps [simp]:
  "prepend evs (x, s, tr) = (x, s, evs @ tr)"
  "fst (prepend evs r) = fst r"
  "fst (snd (prepend evs r)) = fst (snd r)"
  "snd (snd (prepend evs r)) = evs @ snd (snd r)"
  by (simp_all add: prepend_def split: prod.splits)

lemma prepend_Nil [simp]: "prepend [] r = r"
  by (simp add: prepend_def split: prod.splits)

lemma then_do_emit: "then_do (emit evs) k s = prepend evs (k () s)"
  by (simp add: then_do_def emit_def prepend_def)

lemma then_do_exit_if: "then_do (exit_if c evs) k s = (if c then (Return, s, evs) else k () s)"
  by (simp add: then_do_def exit_if_def emit_def return_stmt_def split: prod.splits)

lemma then_do_perform:
  "then_do (perform ev a) k s =
     (case a of Inl e \<Rightarrow> (Throw e, s, [ev]) | Inr v \<Rightarrow> prepend [ev] (k v s))"
  by (simp add: then_do_def perform_def prepend_def split: sum.splits)

lemma then_do_read: "then_do read_isInitialized k s = k (isInitialized s) s"
  by (simp add: then_do_def read_isInitialized_def split: prod.splits)

lemma then_do_assign:
  "then_do (assign_isInitialized b) k s = k () (s\<lparr>isInitialized := b\<rparr>)"
  "then_do (assign_registrationToken t) k s = k () (s\<lparr>registrationToken := t\<rparr>)"
  by (simp_all add: then_do_def assign_isInitialized_def assign_registrationToken_def
        split: prod.splits)

lemma then_do_result: "then_do (result v) k s = k v s"
  by (simp add: then_do_def result_def split: prod.splits)

lemma then_do_return: "then_do return_stmt k s = (Return, s, [])"
  by (simp add: then_do_def return_stmt_def)

lemma then_do_reference_navigator:
  "then_do (reference_navigator env) k s =
     (if navigator_defined env then k () s else (Throw navigator_ReferenceError, s, []))"
  by (simp add: then_do_def reference_navigator_def emit_def throw_stmt_def split: prod.splits)

lemma then_do_assoc: "then_do (then_do m k1) k2 = then_do m (\<lambda>a. then_do (k1 a) k2)"
  by (rule ext) (simp add: then_do_def split: prod.splits step.splits)

lemma then_do_if: "then_do (if c then m1 else m2) k = (if c then then_do m1 k else then_do m2 k)"
  by simp

lemma then_do_case_option:
  "then_do (case x of None \<Rightarrow> m1 | Some t \<Rightarrow> m2 t) k =
     (case x of None \<Rightarrow> then_do m1 k | Some t \<Rightarrow> then_do (m2 t) k)"
  by (simp split: option.splits)

lemma then_do_call:
  "then_do (call_function f) k s =
     (case f s of
        (Throw e, s1, tr1) \<Rightarrow> (Throw e, s1, tr1)
      | (Continue a, s1, tr1) \<Rightarrow> prepend tr1 (k () s1)
      | (Return, s1, tr1) \<Rightarrow> prepend tr1 (k () s1))"
  by (simp add: then_do_def call_function_def prepend_def split: prod.splits step.splits)

lemma then_do_known:
  "then_do (\<lambda>s. (r, f s, evs)) k s =
     (case r of
        Continue a \<Rightarrow> prepend evs (k a (f s))
      | Return \<Rightarrow> (Return, f s, evs)
      | Throw e \<Rightarrow> (Throw e, f s, evs))"
  by (simp add: then_do_def prepend_def split: step.splits prod.splits)

lemma applied:
  "emit evs s = (Continue (), s, evs)"
  "return_stmt s = (Return, s, [])"
  "result v s = (Continue v, s, [])"
  "perform ev a s = (case a of Inl e \<Rightarrow> (Throw e, s, [ev]) | Inr v \<Rightarrow> (Continue v, s, [ev]))"
  by (simp_all add: emit_def return_stmt_def result_def perform_def)

lemma try_catch_exec:
  "try_catch blk h s =
     (case blk s of
        (Throw e, s1, tr1) \<Rightarrow> prepend tr1 (h e s1)
      | (Continue a, s1, tr1) \<Rightarrow> (Continue a, s1, tr1)
      | (Return, s1, tr1) \<Rightarrow> (Return, s1, tr1))"
  by (simp add: try_catch_def prepend_def split: prod.splits step.splits)

lemmas exec = then_do_emit then_do_exit_if then_do_perform then_do_read then_do_assign
  then_do_result then_do_return then_do_assoc then_do_if then_do_case_option then_do_call applied
  try_catch_exec

subsection \<open>Dropping the console lines statement by statement\<close>

lemma observed_append: "observed (xs @ ys) = observed xs @ observed ys"
  by (simp add: observed_def)

lemma observed_simps:
  "observed [] = []"
  "observed (ev # evs) = (if console_line ev then observed evs else ev # observed evs)"
  by (simp_all add: observed_def)

lemma console_line_details [simp]:
  "console_line (case e of ErrorObject m st \<Rightarrow> ConsoleErrorDetails m st
                 | OtherValue x \<Rightarrow> ConsoleErrorDetails u v)"
  by (cases e) simp_all

lemma fst_obs: "fst (obs m s) = fst (m s)"
  by (simp add: obs_def split: prod.splits)

lemma obs_then_do: "obs (then_do m k) = then_do (obs m) (\<lambda>a. obs (k a))"
  by (rule ext) (simp add: obs_def then_do_def observed_append split: prod.splits step.splits)

lemma obs_try_catch: "obs (try_catch blk h) = try_catch (obs blk) (\<lambda>e. obs (h e))"
  by (rule ext) (simp add: obs_def try_catch_def observed_append split: prod.splits step.splits)

lemma obs_call_function: "obs (call_function f) = call_function (obs f)"
  by (rule ext) (simp add: obs_def call_function_def split: prod.splits step.splits)

lemma obs_emit: "obs (emit evs) = emit (observed evs)"
  by (simp add: obs_def emit_def)

lemma obs_exit_if: "obs (exit_if c evs) = exit_if c (observed evs)"
  by (rule ext) (simp add: obs_def exit_if_def emit_def then_do_def return_stmt_def observed_def)

lemma obs_perform: "\<not> console_line ev \<Longrightarrow> obs (perform ev a) = perform ev a"
  by (rule ext) (simp add: obs_def perform_def observed_def split: sum.splits)

lemma obs_plain:
  "obs return_stmt = return_stmt"
  "obs (result v) = result v"
  "obs (assign_isInitialized b) = assign_isInitialized b"
  "obs (assign_registrationToken t) = assign_registrationToken t"
  by (simp_all add: obs_def return_stmt_def result_def assign_isInitialized_def
      assign_registrationToken_def observed_def)

lemma obs_read: "obs read_isInitialized = read_isInitialized"
  by (simp add: obs_def read_isInitialized_def observed_def)

lemma obs_reference_navigator: "obs (reference_navigator env) = reference_navigator env"
  by (rule ext)
     (simp add: obs_def reference_navigator_def emit_def throw_stmt_def observed_def)

lemma obs_if: "obs (if c then m1 else m2) = (if c then obs m1 else obs m2)"
  by simp

lemma obs_case_option:
  "obs (case x of None \<Rightarrow> m1 | Some t \<Rightarrow> m2 t) =
     (case x of None \<Rightarrow> obs m1 | Some t \<Rightarrow> obs (m2 t))"
  by (simp split: option.splits)

lemma settle_obs:
  "(fst (settle m s), fst (snd (settle m s)), observed (snd (snd (settle m s)))) = settle (obs m) s"
  by (simp add: settle_def obs_def split: prod.splits step.splits)

lemmas obs_push = obs_then_do obs_try_catch obs_call_function obs_emit obs_exit_if obs_perform
  obs_plain obs_read obs_reference_navigator obs_if obs_case_option observed_simps

subsection \<open>The parts of the try block\<close>

lemma obs_registerDeviceOnBackend:
  "obs (registerDeviceOnBackend env t ''web'') = (\<lambda>s. (Continue (), s, backend_events env t))"
  by (rule ext)
     (simp add: registerDeviceOnBackend_def obs_push exec backend_events_def split: sum.splits)

lemma obs_check_permission:
  "obs (check_permission env) = (\<lambda>s. (permission_step env, s, permission_calls env))"
  by (rule ext)
     (simp add: check_permission_def resolve_permission_def obs_push exec permission_step_def
           permission_calls_def split: sum.splits permission.splits)

lemma obs_register_worker:
  "obs (register_worker env) = (\<lambda>s. (worker_step env, s, [RegisterServiceWorker]))"
  by (rule ext)
     (simp add: register_worker_def obs_push exec worker_step_def split: sum.splits option.splits)

lemma obs_initialize_messaging:
  "obs (initialize_messaging env) = (\<lambda>s. (messaging_step env, s, [FcmInitialize]))"
  by (rule ext)
     (simp add: initialize_messaging_def obs_push exec messaging_step_def split: sum.splits)

lemma obs_get_token:
  "obs (get_token env) =
     (\<lambda>s. (token_step env,
            if token_step env = Continue ()
            then s\<lparr>registrationToken := Some (token_of env)\<rparr> else s,
            FcmGetToken #
            (if token_step env = Continue () then backend_events env (token_of env) else [])))"
proof -
  have "obs (get_token env) =
          then_do (emit []) (\<lambda>_.
          then_do (perform FcmGetToken (fcm_getToken env)) (\<lambda>token.
          case token of
            None \<Rightarrow> then_do (emit []) (\<lambda>_. return_stmt)
          | Some t \<Rightarrow>
              if t \<noteq> [] then
                then_do (emit []) (\<lambda>_.
                then_do (assign_registrationToken (Some t)) (\<lambda>_.
                then_do (emit []) (\<lambda>_.
                call_function (\<lambda>s. (Continue (), s, backend_events env t)))))
              else then_do (emit []) (\<lambda>_. return_stmt)))"
    by (simp add: get_token_def obs_push obs_registerDeviceOnBackend
          cong: option.case_cong if_cong)
  also have "\<dots> =
     (\<lambda>s. (token_step env,
            if token_step env = Continue ()
            then s\<lparr>registrationToken := Some (token_of env)\<rparr> else s,
            FcmGetToken #
            (if token_step env = Continue () then backend_events env (token_of env) else [])))"
    by (rule ext)
       (simp add: exec call_function_def token_step_def token_of_def
             split: sum.splits option.splits)
  finally show ?thesis .
qed

lemma obs_setup_listener:
  "obs (setup_listener env) =
     (\<lambda>s. (listener_step env,
            if listener_step env = Continue () then s\<lparr>isInitialized := True\<rparr> else s,
            [SetupForegroundListener]))"
  by (rule ext)
     (simp add: setup_listener_def obs_push exec listener_step_def split: sum.splits)

lemma obs_catch_clause: "obs (catch_clause e) = emit (caught e)"
  by (simp add: catch_clause_def obs_push caught_def)

lemmas obs_phases = obs_check_permission obs_register_worker obs_initialize_messaging
  obs_get_token obs_setup_listener obs_catch_clause

lemmas reach_defs = reaches_worker_def reaches_messaging_def reaches_token_def
  reaches_listener_def completes_def

lemmas run_exec = then_do_known try_catch_exec settle_def applied step_report_def

lemma try_block_result:
  "fst (try_block env s) =
     (case permission_step env of
        Continue _ \<Rightarrow>
          (case worker_step env of
             Continue _ \<Rightarrow>
               (case messaging_step env of
                  Continue _ \<Rightarrow>
                    (case token_step env of
                       Continue _ \<Rightarrow> listener_step env
                     | Return \<Rightarrow> Return
                     | Throw e \<Rightarrow> Throw e)
                | Return \<Rightarrow> Return
                | Throw e \<Rightarrow> Throw e)
           | Return \<Rightarrow> Return
           | Throw e \<Rightarrow> Throw e)
      | Return \<Rightarrow> Return
      | Throw e \<Rightarrow> Throw e)"
  unfolding fst_obs [of "try_block env" s, symmetric]
  by (simp add: try_block_def obs_push obs_phases then_do_known split: step.splits)

lemma settle_try_block:
  "reaches_permission env s \<Longrightarrow>
   settle (try_catch (obs (try_block env)) (\<lambda>e. emit (caught e))) s =
     (Resolved, run_state env s, run_events env s)"
  apply (simp add: try_block_def obs_push obs_phases run_state_def run_events_def reach_defs)
  apply (cases "permission_step env"; simp add: run_exec)
  apply (cases "worker_step env"; simp add: run_exec)
  apply (cases "messaging_step env"; simp add: run_exec)
  apply (cases "token_step env"; simp add: run_exec)
  apply (cases "listener_step env"; simp add: run_exec)
  done

subsection \<open>The summary of a run agrees with the model\<close>

lemma run_summary:
  "(outcome_of (initializePushNotifications env s),
    state_after (initializePushNotifications env s),
    observed (trace_of (initializePushNotifications env s))) =
   (run_outcome env s, run_state env s, run_events env s)"
  unfolding outcome_of_def state_after_def trace_of_def initializePushNotifications_def settle_obs
proof (cases "reaches_permission env s")
  case True
  then have c: "\<not> isInitialized s" "window_defined env" "navigator_defined env"
    "serviceWorker_in_navigator env" "PushManager_in_window env" "Notification_in_window env"
    "window_isSecureContext env"
    by (simp_all add: reaches_permission_def browser_supported_def)
  then have "obs (initializePushNotifications_body env) s =
               try_catch (obs (try_block env)) (\<lambda>e. emit (caught e)) s"
    by (simp add: initializePushNotifications_body_def obs_push obs_catch_clause then_do_emit
          then_do_exit_if then_do_read then_do_reference_navigator)
  then have "settle (obs (initializePushNotifications_body env)) s =
               settle (try_catch (obs (try_block env)) (\<lambda>e. emit (caught e))) s"
    by (simp add: settle_def)
  moreover have "run_outcome env s = Resolved"
    using c by (simp add: run_outcome_def)
  ultimately show "settle (obs (initializePushNotifications_body env)) s =
               (run_outcome env s, run_state env s, run_events env s)"
    using True by (simp add: settle_try_block)
next
  case False
  then have "run_state env s = s" "run_events env s = []"
    by (simp_all add: run_state_def run_events_def reach_defs)
  moreover have "settle (obs (initializePushNotifications_body env)) s =
                   (run_outcome env s, s, [])"
    using False
    by (auto simp add: initializePushNotifications_body_def obs_push then_do_emit
          then_do_exit_if then_do_read then_do_reference_navigator settle_def run_outcome_def
          reaches_permission_def browser_supported_def)
  ultimately show "settle (obs (initializePushNotifications_body env)) s =
               (run_outcome env s, run_state env s, run_events env s)"
    by simp
qed

lemma run_outcome_eq: "outcome_of (initializePushNotifications env s) = run_outcome env s"
  and run_state_eq: "state_after (initializePushNotifications env s) = run_state env s"
  and run_observed_eq: "observed (trace_of (initializePushNotifications env s)) = run_events env s"
  using run_summary [of env s] by simp_all

lemma run_outcome_Resolved:
  "run_outcome env s = Resolved \<longleftrightarrow>
     isInitialized s \<or> \<not> window_defined env \<or> navigator_defined env"
  by (simp add: run_outcome_def)

lemma run_outcome_reached: "reaches_permission env s \<Longrightarrow> run_outcome env s = Resolved"
  by (simp add: run_outcome_def reaches_permission_def browser_supported_def)

lemma run_mem:
  "\<not> console_line ev \<Longrightarrow>
   ev \<in> set (trace_of (initializePushNotifications env s)) \<longleftrightarrow> ev \<in> set (run_events env s)"
  unfolding run_observed_eq [symmetric] by (simp add: observed_def)

lemma count_list_observed:
  "\<not> console_line ev \<Longrightarrow> count_list (observed tr) ev = count_list tr ev"
  by (induction tr) (auto simp: observed_def)

lemma run_count:
  "\<not> console_line ev \<Longrightarrow>
   count_list (trace_of (initializePushNotifications env s)) ev = count_list (run_events env s) ev"
  unfolding run_observed_eq [symmetric] by (simp add: count_list_observed)

lemma filter_observed_eq:
  "(\<And>ev. P ev \<Longrightarrow> \<not> console_line ev) \<Longrightarrow> filter P (observed tr) = filter P tr"
  by (induction tr) (auto simp: observed_def)

lemma run_filter:
  "(\<And>ev. P ev \<Longrightarrow> \<not> console_line ev) \<Longrightarrow>
   filter P (trace_of (initializePushNotifications env s)) = filter P (run_events env s)"
  unfolding run_observed_eq [symmetric] by (simp add: filter_observed_eq)

lemma dropWhile_observed:
  "\<not> console_line x \<Longrightarrow> \<not> console_line y \<Longrightarrow>
   y \<in> set (dropWhile (\<lambda>ev. ev \<noteq> x) (observed tr)) \<longleftrightarrow>
   y \<in> set (dropWhile (\<lambda>ev. ev \<noteq> x) tr)"
  by (induction tr) (auto simp: observed_def)

lemma run_dropWhile:
  "\<not> console_line x \<Longrightarrow> \<not> console_line y \<Longrightarrow>
   y \<in> set (dropWhile (\<lambda>ev. ev \<noteq> x) (trace_of (initializePushNotifications env s))) \<longleftrightarrow>
   y \<in> set (dropWhile (\<lambda>ev. ev \<noteq> x) (run_events env s))"
  unfolding run_observed_eq [symmetric] by (simp add: dropWhile_observed)

subsection \<open>Facts about the parts\<close>

lemma permission_step_iff: "permission_step env = Continue () \<longleftrightarrow> permission_granted env"
  by (simp add: permission_step_def permission_granted_def split: permission.splits sum.splits)

lemma worker_step_iff: "worker_step env = Continue () \<longleftrightarrow> worker_registered env"
  by (simp add: worker_step_def worker_registered_def split: option.splits sum.splits)

lemma messaging_step_iff: "messaging_step env = Continue () \<longleftrightarrow> fcm_initialize env = Inr ()"
  by (simp add: messaging_step_def split: sum.splits)

lemma token_step_iff: "token_step env = Continue () \<longleftrightarrow> token_received env"
  by (simp add: token_step_def token_received_def split: option.splits sum.splits)

lemma listener_step_iff:
  "listener_step env = Continue () \<longleftrightarrow> fcm_setupForegroundListener env = Inr ()"
  by (simp add: listener_step_def split: sum.splits)

lemmas step_iffs = permission_step_iff worker_step_iff messaging_step_iff token_step_iff
  listener_step_iff

lemmas reach = reaches_permission_def reaches_worker_def reaches_messaging_def reaches_token_def
  reaches_listener_def

lemma reaches_listener_iff: "reaches_listener env s \<longleftrightarrow> fetches_token env s"
  by (auto simp add: reach step_iffs fetches_token_def)

lemma completes_iff: "completes env s \<longleftrightarrow> \<not> isInitialized s \<and> sequence_completes env"
  by (auto simp add: completes_def reach step_iffs sequence_completes_def)

lemma not_in_report [simp]:
  "RequestPermission \<notin> set (step_report r)" "RegisterServiceWorker \<notin> set (step_report r)"
  "FcmInitialize \<notin> set (step_report r)" "FcmGetToken \<notin> set (step_report r)"
  "ImportApi \<notin> set (step_report r)" "ApiPost u t ty \<notin> set (step_report r)"
  "SetupForegroundListener \<notin> set (step_report r)"
  by (simp_all add: step_report_def caught_def split: step.splits)

lemma not_in_backend [simp]:
  "RequestPermission \<notin> set (backend_events env t)"
  "RegisterServiceWorker \<notin> set (backend_events env t)"
  "FcmInitialize \<notin> set (backend_events env t)" "FcmGetToken \<notin> set (backend_events env t)"
  "SetupForegroundListener \<notin> set (backend_events env t)"
  by (simp_all add: backend_events_def split: sum.splits)

lemma import_reached: "ImportApi \<in> set (run_events env s) \<Longrightarrow> reaches_listener env s"
  by (auto simp add: run_events_def permission_calls_def split: if_splits)

lemma run_state_backend:
  "run_state (env\<lparr>import_api := a, api_post := b\<rparr>) s = run_state env s"
proof -
  let ?env = "env\<lparr>import_api := a, api_post := b\<rparr>"
  have "permission_step ?env = permission_step env" "worker_step ?env = worker_step env"
    "messaging_step ?env = messaging_step env" "token_step ?env = token_step env"
    "listener_step ?env = listener_step env" "token_of ?env = token_of env"
    "browser_supported ?env = browser_supported env"
    by (simp_all add: permission_step_def worker_step_def messaging_step_def token_step_def
          listener_step_def token_of_def browser_supported_def
          cong: permission.case_cong sum.case_cong option.case_cong)
  then show ?thesis
    by (simp add: run_state_def reach)
qed

lemmas listener_exec = foreground_listener_def showNativeNotification_def exec

lemmas example_envs = example_env_def messaging_fails_env_def no_worker_env_def denied_env_def
  prompt_env_def backend_down_env_def listener_fails_env_def no_navigator_env_def
  server_env_def

lemmas example_eval = example_envs initial_state_def browser_supported_def run_outcome_def
  navigator_ReferenceError_def permission_step_def
  permission_calls_def worker_step_def messaging_step_def token_step_def token_of_def
  listener_step_def step_report_def caught_def backend_events_def reach run_events_def
  run_state_def

section \<open>Properties of the module\<close>

text \<open>
  C1. As stated (the promise is fulfilled in every environment) the property fails: the
  capability checks of lines 120-148 stand before the \<open>try\<close> block, and where
  \<open>window\<close> is defined while \<open>navigator\<close> is not bound, line 126 throws
  a ReferenceError that rejects the promise. What holds: the promise is fulfilled in every
  environment in which \<open>navigator\<close> is bound whenever \<open>window\<close> is defined,
  whatever the collaborators answer, and it is rejected in no other case than that one; when
  the \<open>try\<close> block throws a value, the \<open>catch\<close> clause reports that value
  on the console and nothing reaches the caller.
\<close>

theorem initialize_resolves_with_navigator:
  "(outcome_of (initializePushNotifications env s) = Resolved \<longleftrightarrow>
      isInitialized s \<or> \<not> window_defined env \<or> navigator_defined env) \<and>
   ((window_defined env \<longrightarrow> navigator_defined env) \<longrightarrow>
      outcome_of (initializePushNotifications env s) = Resolved) \<and>
   (\<not> isInitialized s \<and> browser_supported env \<and> fst (try_block env s) = Throw e \<longrightarrow>
      ConsoleWithError ''Error initializing push notifications:'' e
        \<in> set (trace_of (initializePushNotifications env s)))"
proof -
  have "ConsoleWithError ''Error initializing push notifications:'' e \<in> set (run_events env s)"
    if "reaches_permission env s" "fst (try_block env s) = Throw e"
    using that
    by (auto simp add: try_block_result run_events_def reach step_report_def caught_def
          split: step.splits)
  then show ?thesis
    by (auto simp add: run_outcome_eq run_outcome_Resolved run_mem reaches_permission_def)
qed

theorem initialize_resolves_with_navigator_witness:
  "window_defined messaging_fails_env \<and> navigator_defined messaging_fails_env \<and>
   \<not> isInitialized initial_state \<and> browser_supported messaging_fails_env \<and>
   fst (try_block messaging_fails_env initial_state) = Throw (ErrorObject ''messaging failed'' None) \<and>
   outcome_of (initializePushNotifications messaging_fails_env initial_state) = Resolved \<and>
   ConsoleWithError ''Error initializing push notifications:'' (ErrorObject ''messaging failed'' None)
     \<in> set (trace_of (initializePushNotifications messaging_fails_env initial_state))"
proof -
  have n: "window_defined messaging_fails_env" "navigator_defined messaging_fails_env"
    by (simp_all add: example_envs)
  have h: "\<not> isInitialized initial_state \<and> browser_supported messaging_fails_env \<and>
           fst (try_block messaging_fails_env initial_state) =
             Throw (ErrorObject ''messaging failed'' None)"
    by (simp add: try_block_result example_eval)
  show ?thesis
    using n h initialize_resolves_with_navigator
      [of messaging_fails_env initial_state "ErrorObject ''messaging failed'' None"]
    by blast
qed

theorem initialize_rejects_counterexample:
  "window_defined no_navigator_env \<and> \<not> navigator_defined no_navigator_env \<and>
   outcome_of (initializePushNotifications no_navigator_env initial_state) =
     Rejected (ErrorObject ''navigator is not defined'' None)"
  by (simp add: run_outcome_eq example_eval)

text \<open>
  C2. When the flag is already true the call writes two console lines and returns: the
  result does not depend on the environment, the state is unchanged and no collaborator is
  called. In particular a second call after a run that set the flag is such a call.
\<close>

theorem initialize_is_idempotent:
  "(isInitialized s \<longrightarrow>
      initializePushNotifications env s =
        (Resolved, s,
         [Console LogLevel ''initializePushNotifications() called at:'',
          Console LogLevel ''Push notifications already initialized, skipping...''])) \<and>
   (isPushInitialized (state_after (initializePushNotifications env1 s)) \<longrightarrow>
      initializePushNotifications env2 (state_after (initializePushNotifications env1 s)) =
        (Resolved, state_after (initializePushNotifications env1 s),
         [Console LogLevel ''initializePushNotifications() called at:'',
          Console LogLevel ''Push notifications already initialized, skipping...'']))"
proof -
  have "initializePushNotifications env' s' =
        (Resolved, s',
         [Console LogLevel ''initializePushNotifications() called at:'',
          Console LogLevel ''Push notifications already initialized, skipping...''])"
    if "isInitialized s'" for env' s'
    using that
    by (simp add: initializePushNotifications_def initializePushNotifications_body_def settle_def
          then_do_emit then_do_read then_do_exit_if)
  then show ?thesis
    by (simp add: isPushInitialized_def)
qed

theorem initialize_is_idempotent_witness:
  "isInitialized (initial_state\<lparr>isInitialized := True\<rparr>) \<and>
   initializePushNotifications denied_env (initial_state\<lparr>isInitialized := True\<rparr>) =
     (Resolved, initial_state\<lparr>isInitialized := True\<rparr>,
      [Console LogLevel ''initializePushNotifications() called at:'',
       Console LogLevel ''Push notifications already initialized, skipping...'']) \<and>
   isPushInitialized (state_after (initializePushNotifications example_env initial_state)) \<and>
   initializePushNotifications prompt_env
       (state_after (initializePushNotifications example_env initial_state)) =
     (Resolved, state_after (initializePushNotifications example_env initial_state),
      [Console LogLevel ''initializePushNotifications() called at:'',
       Console LogLevel ''Push notifications already initialized, skipping...''])"
proof -
  have h1: "isInitialized (initial_state\<lparr>isInitialized := True\<rparr>)"
    by simp
  have h2: "isPushInitialized (state_after (initializePushNotifications example_env initial_state))"
    by (simp add: isPushInitialized_def run_state_eq example_eval)
  show ?thesis
    using h1 h2
      initialize_is_idempotent
        [where s = "initial_state\<lparr>isInitialized := True\<rparr>" and env = denied_env]
      initialize_is_idempotent
        [where s = initial_state and ?env1.0 = example_env and ?env2.0 = prompt_env]
    by blast
qed

text \<open>
  C3. Starting with the flag false, \<open>isPushInitialized()\<close> is true after the call exactly
  when the whole sequence went through: the browser has every capability, the permission is
  granted, the worker registration is not null, the messaging client initialized, the token is
  not empty and the listener setup returned. Then the steps were taken in this order: worker
  registration, messaging initialization, token fetch, backend registration, listener setup.
  On every other path (a missing capability, a permission that is not granted, a failed
  registration, a missing token, an exception) the flag is false after the call.
\<close>

theorem flag_set_only_on_completion:
  assumes "\<not> isInitialized s"
  shows "(isPushInitialized (state_after (initializePushNotifications env s)) \<longleftrightarrow>
            sequence_completes env) \<and>
         (sequence_completes env \<longrightarrow>
            filter sequence_step (trace_of (initializePushNotifications env s)) =
              [RegisterServiceWorker, FcmInitialize, FcmGetToken, ImportApi,
               SetupForegroundListener])"
proof -
  have a: "isPushInitialized (state_after (initializePushNotifications env s)) \<longleftrightarrow>
           completes env s"
    using assms by (auto simp add: isPushInitialized_def run_state_eq run_state_def completes_def)
  have f: "filter sequence_step (trace_of (initializePushNotifications env s)) =
             filter sequence_step (run_events env s)"
    by (rule run_filter) (auto simp: sequence_step_def)
  have b: "filter sequence_step (run_events env s) =
             [RegisterServiceWorker, FcmInitialize, FcmGetToken, ImportApi,
              SetupForegroundListener]"
    if "completes env s"
    using that
    by (simp add: completes_def reach run_events_def step_report_def permission_calls_def
          backend_events_def sequence_step_def split: sum.splits)
  show ?thesis
    using assms a b by (simp add: completes_iff f)
qed

theorem flag_set_only_on_completion_witness:
  "\<not> isInitialized initial_state \<and> sequence_completes example_env \<and>
   isPushInitialized (state_after (initializePushNotifications example_env initial_state)) \<and>
   filter sequence_step (trace_of (initializePushNotifications example_env initial_state)) =
     [RegisterServiceWorker, FcmInitialize, FcmGetToken, ImportApi, SetupForegroundListener] \<and>
   \<not> sequence_completes no_worker_env \<and>
   \<not> isPushInitialized (state_after (initializePushNotifications no_worker_env initial_state))"
proof -
  have h: "\<not> isInitialized initial_state"
    by (simp add: initial_state_def)
  have c: "sequence_completes example_env" "\<not> sequence_completes no_worker_env"
    by (simp_all add: sequence_completes_def browser_supported_def permission_granted_def
          worker_registered_def token_received_def example_envs)
  show ?thesis
    using h c flag_set_only_on_completion [OF h, of example_env]
      flag_set_only_on_completion [OF h, of no_worker_env]
    by blast
qed

text \<open>
  C4. When \<open>fcmService.registerServiceWorker()\<close> resolves to \<open>null\<close> or
  \<open>undefined\<close>, the run never calls \<open>fcmService.initialize()\<close>, never fetches the
  token, never calls the backend and never sets up the listener; it leaves the state as it
  was, and the promise is fulfilled (unless \<open>navigator\<close> is not bound, see C1).
\<close>

theorem no_messaging_without_worker:
  assumes "fcm_registerServiceWorker env = Inr None"
  shows "FcmInitialize \<notin> set (trace_of (initializePushNotifications env s)) \<and>
         FcmGetToken \<notin> set (trace_of (initializePushNotifications env s)) \<and>
         ImportApi \<notin> set (trace_of (initializePushNotifications env s)) \<and>
         ApiPost url t ty \<notin> set (trace_of (initializePushNotifications env s)) \<and>
         SetupForegroundListener \<notin> set (trace_of (initializePushNotifications env s)) \<and>
         state_after (initializePushNotifications env s) = s \<and>
         (outcome_of (initializePushNotifications env s) = Resolved \<longleftrightarrow>
            isInitialized s \<or> \<not> window_defined env \<or> navigator_defined env)"
proof -
  have "worker_step env = Return"
    using assms by (simp add: worker_step_def)
  then have "\<not> reaches_messaging env s" "\<not> reaches_token env s" "\<not> reaches_listener env s"
    by (simp_all add: reach)
  then show ?thesis
    by (simp add: run_mem run_outcome_eq run_outcome_Resolved run_state_eq run_events_def
          run_state_def permission_calls_def)
qed

theorem no_messaging_without_worker_witness:
  "fcm_registerServiceWorker no_worker_env = Inr None \<and>
   RegisterServiceWorker \<in> set (trace_of (initializePushNotifications no_worker_env initial_state)) \<and>
   FcmInitialize \<notin> set (trace_of (initializePushNotifications no_worker_env initial_state)) \<and>
   FcmGetToken \<notin> set (trace_of (initializePushNotifications no_worker_env initial_state)) \<and>
   ImportApi \<notin> set (trace_of (initializePushNotifications no_worker_env initial_state)) \<and>
   ApiPost ''/mobcash/devices/'' ''token'' ''web''
     \<notin> set (trace_of (initializePushNotifications no_worker_env initial_state)) \<and>
   SetupForegroundListener
     \<notin> set (trace_of (initializePushNotifications no_worker_env initial_state)) \<and>
   state_after (initializePushNotifications no_worker_env initial_state) = initial_state"
proof -
  have h: "fcm_registerServiceWorker no_worker_env = Inr None"
    by (simp add: example_envs)
  have r: "RegisterServiceWorker
             \<in> set (trace_of (initializePushNotifications no_worker_env initial_state))"
    by (simp add: run_mem example_eval)
  show ?thesis
    using h r no_messaging_without_worker
      [OF h, of initial_state "''/mobcash/devices/''" "''token''" "''web''"]
    by blast
qed

text \<open>
  C5. When the permission reads \<open>denied\<close>, the run calls no collaborator at all: no
  permission request, no service-worker registration, no token fetch; it leaves the state as
  it was, and the promise is fulfilled (unless \<open>navigator\<close> is not bound, see C1).
\<close>

theorem denied_permission_stops_run:
  assumes "Notification_permission env = Denied"
  shows "RequestPermission \<notin> set (trace_of (initializePushNotifications env s)) \<and>
         RegisterServiceWorker \<notin> set (trace_of (initializePushNotifications env s)) \<and>
         FcmGetToken \<notin> set (trace_of (initializePushNotifications env s)) \<and>
         observed (trace_of (initializePushNotifications env s)) = [] \<and>
         state_after (initializePushNotifications env s) = s \<and>
         (outcome_of (initializePushNotifications env s) = Resolved \<longleftrightarrow>
            isInitialized s \<or> \<not> window_defined env \<or> navigator_defined env)"
proof -
  have "permission_step env = Return" "permission_calls env = []"
    using assms by (simp_all add: permission_step_def permission_calls_def)
  then have "run_events env s = []" "run_state env s = s"
    by (simp_all add: run_events_def run_state_def reach step_report_def)
  then show ?thesis
    by (simp add: run_mem run_outcome_eq run_outcome_Resolved run_state_eq run_observed_eq)
qed

theorem denied_permission_stops_run_witness:
  "Notification_permission denied_env = Denied \<and>
   RequestPermission \<notin> set (trace_of (initializePushNotifications denied_env initial_state)) \<and>
   RegisterServiceWorker \<notin> set (trace_of (initializePushNotifications denied_env initial_state)) \<and>
   FcmGetToken \<notin> set (trace_of (initializePushNotifications denied_env initial_state)) \<and>
   observed (trace_of (initializePushNotifications denied_env initial_state)) = [] \<and>
   state_after (initializePushNotifications denied_env initial_state) = initial_state"
proof -
  have h: "Notification_permission denied_env = Denied"
    by (simp add: example_envs)
  show ?thesis
    using h denied_permission_stops_run [OF h, of initial_state] by blast
qed

text \<open>
  C6. When a token that is not null has been retrieved and the backend registration that
  follows fails (the import of the api client fails or the POST to \<open>/mobcash/devices/\<close>
  rejects) while the listener setup works as usual, the failure is not fatal: the error is
  caught and reported inside \<open>registerDeviceOnBackend\<close>, the foreground listener is
  set up after that report, and \<open>isPushInitialized()\<close> is true after the run. The
  state after the run, cached token included, is the one a successful backend call would have
  left.
\<close>

theorem backend_failure_not_fatal:
  assumes "fcm_getToken env = Inr (Some t)"
    and "ImportApi \<in> set (trace_of (initializePushNotifications env s))"
    and "backend_failure env = Some e"
    and "fcm_setupForegroundListener env = Inr ()"
  shows "outcome_of (initializePushNotifications env s) = Resolved \<and>
         ConsoleWithError ''Error registering device on backend:'' e
           \<in> set (trace_of (initializePushNotifications env s)) \<and>
         SetupForegroundListener
           \<in> set (dropWhile (\<lambda>ev. ev \<noteq> ConsoleWithError ''Error registering device on backend:'' e)
                   (trace_of (initializePushNotifications env s))) \<and>
         isPushInitialized (state_after (initializePushNotifications env s)) \<and>
         getPushToken (state_after (initializePushNotifications env s)) = Some t \<and>
         state_after (initializePushNotifications env s) =
           state_after (initializePushNotifications
                          (env\<lparr>import_api := Inr (), api_post := Inr ()\<rparr>) s)"
proof -
  let ?x = "ConsoleWithError ''Error registering device on backend:'' e"
  have r: "reaches_listener env s"
    using assms(2) by (simp add: run_mem import_reached)
  then have steps: "reaches_permission env s" "permission_step env = Continue ()"
    "worker_step env = Continue ()" "messaging_step env = Continue ()"
    "token_step env = Continue ()"
    by (simp_all add: reach)
  have ev: "run_events env s =
              permission_calls env @ [RegisterServiceWorker, FcmInitialize, FcmGetToken] @
              backend_events env (token_of env) @
              SetupForegroundListener # step_report (listener_step env)"
    using r steps by (simp add: run_events_def reach step_report_def)
  have d: "SetupForegroundListener \<in> set (dropWhile (\<lambda>ev. ev \<noteq> ?x) (run_events env s))"
    using assms(3) unfolding ev
    by (simp add: permission_calls_def backend_events_def backend_failure_def split: sum.splits)
  have m: "?x \<in> set (run_events env s)"
    using assms(3) unfolding ev
    by (simp add: backend_events_def backend_failure_def split: sum.splits)
  have tk: "token_of env = t"
    using assms(1) by (simp add: token_of_def)
  have st: "state_after (initializePushNotifications env s) =
            state_after (initializePushNotifications
                           (env\<lparr>import_api := Inr (), api_post := Inr ()\<rparr>) s)"
    by (simp add: run_state_eq run_state_backend)
  have fl: "isPushInitialized (state_after (initializePushNotifications env s))"
    "getPushToken (state_after (initializePushNotifications env s)) = Some t"
    using r tk assms(4)
    by (simp_all add: run_state_eq isPushInitialized_def getPushToken_def run_state_def
          listener_step_iff)
  have o: "outcome_of (initializePushNotifications env s) = Resolved"
    using steps(1) by (simp add: run_outcome_eq run_outcome_reached)
  show ?thesis
    using d m st fl o by (simp add: run_mem run_dropWhile)
qed

theorem backend_failure_not_fatal_witness:
  "fcm_getToken backend_down_env = Inr (Some ''token'') \<and>
   ImportApi \<in> set (trace_of (initializePushNotifications backend_down_env initial_state)) \<and>
   backend_failure backend_down_env =
     Some (ErrorObject ''Request failed with status code 500'' None) \<and>
   fcm_setupForegroundListener backend_down_env = Inr () \<and>
   ConsoleWithError ''Error registering device on backend:''
       (ErrorObject ''Request failed with status code 500'' None)
     \<in> set (trace_of (initializePushNotifications backend_down_env initial_state)) \<and>
   SetupForegroundListener
     \<in> set (dropWhile
              (\<lambda>ev. ev \<noteq> ConsoleWithError ''Error registering device on backend:''
                               (ErrorObject ''Request failed with status code 500'' None))
              (trace_of (initializePushNotifications backend_down_env initial_state))) \<and>
   isPushInitialized (state_after (initializePushNotifications backend_down_env initial_state)) \<and>
   getPushToken (state_after (initializePushNotifications backend_down_env initial_state)) =
     Some ''token''"
proof -
  have h1: "fcm_getToken backend_down_env = Inr (Some ''token'')"
    by (simp add: example_envs)
  have h2: "ImportApi \<in> set (trace_of (initializePushNotifications backend_down_env initial_state))"
    by (simp add: run_mem example_eval)
  have h3: "backend_failure backend_down_env =
              Some (ErrorObject ''Request failed with status code 500'' None)"
    by (simp add: backend_failure_def example_envs)
  have h4: "fcm_setupForegroundListener backend_down_env = Inr ()"
    by (simp add: example_envs)
  show ?thesis
    using h1 h2 h3 h4 backend_failure_not_fatal [OF h1 h2 h3 h4] by blast
qed

text \<open>
  C7. As stated (\<open>getPushToken()\<close> is null before any successful initialization) the
  property fails: a run that fetches a token and then fails in the listener setup leaves the
  token in place although \<open>isPushInitialized()\<close> is false. What holds:
  \<open>getPushToken()\<close> is null in the initial state; a run that fetches a token leaves
  \<open>getPushToken()\<close> equal to exactly the string that \<open>fcmService.getToken()\<close>
  returned, whether or not the listener setup then succeeds; every other run leaves it as it
  was; and a run that sets the flag is a run that fetches a token, so after a successful
  initialization \<open>getPushToken()\<close> is exactly the string returned in that run.
\<close>

theorem getPushToken_cached_token:
  "getPushToken initial_state = None \<and>
   (fetches_token env s \<longrightarrow>
      getPushToken (state_after (initializePushNotifications env s)) \<noteq> None \<and>
      fcm_getToken env = Inr (getPushToken (state_after (initializePushNotifications env s)))) \<and>
   (\<not> fetches_token env s \<longrightarrow>
      getPushToken (state_after (initializePushNotifications env s)) = getPushToken s) \<and>
   (\<not> isInitialized s \<and> isPushInitialized (state_after (initializePushNotifications env s)) \<longrightarrow>
      fetches_token env s \<and>
      getPushToken (state_after (initializePushNotifications env s)) \<noteq> None \<and>
      fcm_getToken env = Inr (getPushToken (state_after (initializePushNotifications env s))))"
proof -
  have t: "fcm_getToken env = Inr (Some (token_of env))" if "token_step env = Continue ()"
    using that by (simp add: token_step_def token_of_def split: sum.splits option.splits if_splits)
  have r: "reaches_listener env s \<Longrightarrow> token_step env = Continue ()"
    by (simp add: reach)
  show ?thesis
    using t r
    by (auto simp add: getPushToken_def isPushInitialized_def initial_state_def run_state_eq
          run_state_def reaches_listener_iff [symmetric])
qed

theorem getPushToken_cached_token_witness:
  "fetches_token example_env initial_state \<and>
   \<not> fetches_token denied_env initial_state \<and>
   \<not> isInitialized initial_state \<and>
   isPushInitialized (state_after (initializePushNotifications example_env initial_state)) \<and>
   fcm_getToken example_env = Inr (Some ''token'') \<and>
   getPushToken (state_after (initializePushNotifications example_env initial_state)) =
     Some ''token'' \<and>
   getPushToken (state_after (initializePushNotifications denied_env initial_state)) =
     getPushToken initial_state"
proof -
  have h: "fetches_token example_env initial_state" "\<not> fetches_token denied_env initial_state"
    "\<not> isInitialized initial_state"
    by (simp_all add: fetches_token_def browser_supported_def permission_granted_def
          worker_registered_def token_received_def example_envs initial_state_def)
  have i: "isPushInitialized (state_after (initializePushNotifications example_env initial_state))"
    by (simp add: isPushInitialized_def run_state_eq example_eval)
  have g: "fcm_getToken example_env = Inr (Some ''token'')"
    by (simp add: example_envs)
  show ?thesis
    using h i g getPushToken_cached_token [of example_env initial_state]
      getPushToken_cached_token [of denied_env initial_state]
    by auto
qed

theorem getPushToken_counterexample:
  "getPushToken initial_state = None \<and>
   \<not> isPushInitialized
       (state_after (initializePushNotifications listener_fails_env initial_state)) \<and>
   getPushToken (state_after (initializePushNotifications listener_fails_env initial_state)) =
     Some ''token''"
  by (simp add: getPushToken_def isPushInitialized_def run_state_eq example_eval)

text \<open>
  C8. As stated (the title is \<open>payload.notification.title\<close> unless it is absent, and the
  URL is opened whenever \<open>payload.data.url\<close> is present) the property fails: the code
  tests both with JavaScript truthiness, so a title that is present but empty is replaced by
  \<open>Notification\<close> and a URL that is present but empty is not opened. What holds: for
  every payload delivered to the listener, the listener constructs one notification (the guards
  of \<open>showNativeNotification\<close> passing: the Notification API present and the permission
  granted; otherwise none), whose title is \<open>payload.notification.title\<close>, or
  \<open>Notification\<close> when that is absent or empty, whose body is
  \<open>payload.notification.body\<close>, or the empty string, whose tag is the channel id, an
  underscore and the current timestamp, and which carries the payload data and the icon,
  badge, vibration pattern and interaction flag of the channel. The click handler is assigned
  exactly when the constructor returns: a click prevents the default handling, focuses the
  window, opens \<open>payload.data.url\<close> in a new browsing context when it is present and
  not empty, and then closes the notification. The listener itself never throws.
\<close>

theorem foreground_notification_contents:
  "notifications (trace_of (foreground_listener env payload s)) =
     (if window_defined env \<and> Notification_in_window env \<and> Notification_permission env = Granted
      then [\<lparr>n_title =
               (case Option.bind (notification payload) title of
                  None \<Rightarrow> ''Notification''
                | Some t \<Rightarrow> if t = [] then ''Notification'' else t),
             n_body =
               (case Option.bind (notification payload) body of None \<Rightarrow> [] | Some b \<Rightarrow> b),
             n_icon = ''/placeholder-logo.png'',
             n_badge = ''/placeholder-logo.png'',
             n_tag = ''africash_foreground_'' @ string_of_int (Date_now env),
             n_requireInteraction = False,
             n_data = data payload,
             n_vibrate = [200, 100, 200]\<rparr>]
      else []) \<and>
   (AssignOnclick a \<in> set (trace_of (foreground_listener env payload s)) \<longleftrightarrow>
      window_defined env \<and> Notification_in_window env \<and> Notification_permission env = Granted \<and>
      new_Notification env = Inr () \<and>
      a = (case Option.bind (data payload) (\<lambda>m. m ''url'') of
             None \<Rightarrow> [PreventDefault, WindowFocus, NotificationClose]
           | Some url \<Rightarrow>
               if url = [] then [PreventDefault, WindowFocus, NotificationClose]
               else [PreventDefault, WindowFocus, WindowOpen url ''_blank'', NotificationClose])) \<and>
   fst (foreground_listener env payload s) = Continue ()"
  by (auto simp add: trace_of_def listener_exec or_else_def onclick_def NOTIFICATION_CHANNEL_def
        split: sum.splits option.splits)

theorem foreground_notification_contents_witness:
  "window_defined example_env \<and> Notification_in_window example_env \<and>
   Notification_permission example_env = Granted \<and> new_Notification example_env = Inr () \<and>
   notifications (trace_of (foreground_listener example_env example_payload initial_state)) =
     [\<lparr>n_title = ''T'', n_body = ''B'', n_icon = ''/placeholder-logo.png'',
       n_badge = ''/placeholder-logo.png'', n_tag = ''africash_foreground_1770315796000'',
       n_requireInteraction = False, n_data = data example_payload,
       n_vibrate = [200, 100, 200]\<rparr>] \<and>
   AssignOnclick
     [PreventDefault, WindowFocus, WindowOpen ''https://example.com'' ''_blank'',
      NotificationClose]
     \<in> set (trace_of (foreground_listener example_env example_payload initial_state)) \<and>
   notifications (trace_of (foreground_listener denied_env example_payload initial_state)) = []"
proof -
  have g: "window_defined example_env" "Notification_in_window example_env"
    "Notification_permission example_env = Granted" "new_Notification example_env = Inr ()"
    "Notification_permission denied_env \<noteq> Granted"
    by (simp_all add: example_envs)
  have d: "Date_now example_env = 1770315796000"
    "Option.bind (notification example_payload) title = Some ''T''"
    "Option.bind (notification example_payload) body = Some ''B''"
    "Option.bind (data example_payload) (\<lambda>m. m ''url'') = Some ''https://example.com''"
    by (simp_all add: example_envs example_payload_def)
  have n: "string_of_int 1770315796000 = ''1770315796000''"
    by (simp add: string_of_int_def string_of_nat.simps digit_char_def)
  show ?thesis
    using g
      foreground_notification_contents
        [of example_env example_payload initial_state
            "[PreventDefault, WindowFocus, WindowOpen ''https://example.com'' ''_blank'',
              NotificationClose]"]
      foreground_notification_contents [of denied_env example_payload initial_state]
    by (simp add: d n)
qed

theorem foreground_notification_counterexample:
  "Option.bind (notification empty_title_payload) title = Some [] \<and>
   map n_title
     (notifications (trace_of (foreground_listener example_env empty_title_payload initial_state)))
     = [''Notification''] \<and>
   Option.bind (data empty_title_payload) (\<lambda>m. m ''url'') = Some [] \<and>
   AssignOnclick [PreventDefault, WindowFocus, NotificationClose]
     \<in> set (trace_of (foreground_listener example_env empty_title_payload initial_state))"
  by (simp add: trace_of_def listener_exec or_else_def onclick_def empty_title_payload_def
        example_env_def)

text \<open>
  C9. In a run that reads the permission as \<open>default\<close>,
  \<open>Notification.requestPermission()\<close> is called exactly once; the run goes on to the
  service-worker registration exactly when that call resolves to \<open>granted\<close>, and with
  any other result it stops there and leaves the state as it was.
\<close>

theorem default_permission_one_request:
  assumes "\<not> isInitialized s" and "browser_supported env"
    and "Notification_permission env = Default"
  shows "count_list (trace_of (initializePushNotifications env s)) RequestPermission = 1 \<and>
         (RegisterServiceWorker \<in> set (trace_of (initializePushNotifications env s)) \<longleftrightarrow>
            Notification_requestPermission env = Inr Granted) \<and>
         (Notification_requestPermission env \<noteq> Inr Granted \<longrightarrow>
            state_after (initializePushNotifications env s) = s)"
proof -
  have p: "reaches_permission env s" "permission_calls env = [RequestPermission]"
    using assms by (simp_all add: reaches_permission_def permission_calls_def)
  have g: "permission_step env = Continue () \<longleftrightarrow> Notification_requestPermission env = Inr Granted"
    using assms by (simp add: permission_step_iff permission_granted_def)
  have cnt: "count_list (step_report r) RequestPermission = 0" for r
    by (simp add: step_report_def caught_def split: step.splits)
  have cntb: "count_list (backend_events env t) RequestPermission = 0" for t
    by (simp add: backend_events_def split: sum.splits)
  show ?thesis
    using p g
    by (auto simp add: run_count run_mem run_state_eq run_events_def
          run_state_def reach cnt cntb)
qed

theorem default_permission_one_request_witness:
  "\<not> isInitialized initial_state \<and> browser_supported prompt_env \<and>
   Notification_permission prompt_env = Default \<and>
   Notification_requestPermission prompt_env = Inr Granted \<and>
   count_list (trace_of (initializePushNotifications prompt_env initial_state)) RequestPermission = 1 \<and>
   RegisterServiceWorker \<in> set (trace_of (initializePushNotifications prompt_env initial_state))"
proof -
  have h: "\<not> isInitialized initial_state" "browser_supported prompt_env"
    "Notification_permission prompt_env = Default"
    by (simp_all add: initial_state_def browser_supported_def example_envs)
  have g: "Notification_requestPermission prompt_env = Inr Granted"
    by (simp add: example_envs)
  show ?thesis
    using h g default_permission_one_request [OF h] by blast
qed

text \<open>
  C10. \<open>getPermissionStatus()\<close> answers \<open>denied\<close> when \<open>window\<close> is undefined or
  the Notification API is absent, and otherwise the current \<open>Notification.permission\<close>;
  it reads the environment only, so nothing is cached and nothing is changed.
\<close>

theorem getPermissionStatus_reads_live:
  "(\<not> window_defined env \<or> \<not> Notification_in_window env \<longrightarrow>
      getPermissionStatus env = Denied) \<and>
   (window_defined env \<and> Notification_in_window env \<longrightarrow>
      getPermissionStatus env = Notification_permission env)"
  by (simp add: getPermissionStatus_def)

theorem getPermissionStatus_reads_live_witness:
  "\<not> window_defined server_env \<and> Notification_permission server_env = Granted \<and>
   getPermissionStatus server_env = Denied \<and>
   window_defined prompt_env \<and> Notification_in_window prompt_env \<and>
   getPermissionStatus prompt_env = Default"
proof -
  have h: "\<not> window_defined server_env" "Notification_permission server_env = Granted"
    "window_defined prompt_env" "Notification_in_window prompt_env"
    "Notification_permission prompt_env = Default"
    by (simp_all add: example_envs)
  show ?thesis
    using h getPermissionStatus_reads_live [of server_env]
      getPermissionStatus_reads_live [of prompt_env]
    by simp
qed

end
